theory Spec2Isabelle
  imports Complex_Main "HOL-Library.Sublist" "HOL-Library.AList"
begin

section \<open>Python values shared by the three modules\<close>

text \<open>
  The exceptions the modelled code can raise.  \<open>AdapterError\<close> carries the message of an
  exception raised inside an exchange adapter call.
\<close>

datatype py_error = KeyError | AttributeError | TypeError | ZeroDivisionError
  | AdapterError string

text \<open>
  An entry of a dictionary whose key may be missing, may hold \<open>None\<close>, or may hold a value.
  \<open>d.get(k)\<close> gives \<open>None\<close> in the first two cases; \<open>d.get(k, default)\<close> gives the default only
  when the key is missing.
\<close>

datatype 'a entry = Absent | Null | Val 'a

definition entry_get :: "'a entry \<Rightarrow> 'a option" where
  "entry_get e = (case e of Absent \<Rightarrow> None | Null \<Rightarrow> None | Val v \<Rightarrow> Some v)"


text \<open>\<open>str.lower()\<close> on ASCII text: the letters A to Z move to a to z.\<close>

definition lower_char :: "char \<Rightarrow> char" where
  "lower_char c =
     (let n = (of_char c :: nat) in if 65 \<le> n \<and> n \<le> 90 then char_of (n + 32) else c)"

definition lower :: "string \<Rightarrow> string" where
  "lower s = map lower_char s"

section \<open>Floating-point numbers\<close>

text \<open>
  A Python float is an IEEE 754 binary64 value: a sign with a magnitude (a rational, zero
  included, so that \<open>-0.0\<close> is \<open>Fl True 0\<close>), an infinity with its sign, or not-a-number.
\<close>

datatype pyfloat = Fl bool rat | Inf bool | NaN

definition fzero :: pyfloat where
  "fzero = Fl False 0"

text \<open>The signed value of a finite float.\<close>

definition signed :: "bool \<Rightarrow> rat \<Rightarrow> rat" where
  "signed s m = (if s then - m else m)"

text \<open>\<open>log2n n\<close> is the integer part of the binary logarithm of \<open>n\<close>, and 0 below 2.\<close>

fun log2n :: "nat \<Rightarrow> nat" where
  "log2n n = (if n < 2 then 0 else Suc (log2n (n div 2)))"

text \<open>For \<open>x > 0\<close>, the exponent \<open>e\<close> with \<open>2 ^ e \<le> x < 2 ^ (e + 1)\<close>.\<close>

definition ilog2 :: "rat \<Rightarrow> int" where
  "ilog2 x =
     (if x \<ge> 1 then int (log2n (nat \<lfloor>x\<rfloor>))
      else (let k = log2n (nat \<lfloor>1 / x\<rfloor>)
            in if x * 2 ^ k = 1 then - int k else - int (Suc k)))"

definition pow2 :: "int \<Rightarrow> rat" where
  "pow2 e = (if e \<ge> 0 then 2 ^ nat e else 1 / 2 ^ nat (- e))"

definition round_half_even :: "rat \<Rightarrow> int" where
  "round_half_even x =
     (let f = \<lfloor>x\<rfloor>; d = x - of_int f
      in if d < 1 / 2 then f else if d > 1 / 2 then f + 1 else if even f then f else f + 1)"

text \<open>
  Rounding of an exact magnitude to the nearest binary64 magnitude, ties to even: 53
  significant bits, no unit below \<open>2 ^ - 1074\<close>, and overflow (\<open>None\<close>) from \<open>2 ^ 1024\<close> on.
\<close>

definition round_mag :: "rat \<Rightarrow> rat option" where
  "round_mag x =
     (if x = 0 then Some 0
      else (let q = max (ilog2 x - 52) (- 1074);
                r = of_int (round_half_even (x / pow2 q)) * pow2 q
            in if r \<ge> pow2 1024 then None else Some r))"

definition fl :: "bool \<Rightarrow> rat \<Rightarrow> pyfloat" where
  "fl s x = (case round_mag x of None \<Rightarrow> Inf s | Some r \<Rightarrow> Fl s r)"

text \<open>A finite number as a float, without rounding.\<close>

definition flo :: "rat \<Rightarrow> pyfloat" where
  "flo r = Fl (r < 0) \<bar>r\<bar>"

text \<open>The operators \<open>*\<close>, \<open>/\<close>, \<open>+\<close>, \<open>abs\<close>, \<open>>\<close>, \<open><\<close> and \<open>==\<close> on floats.\<close>

fun fmul :: "pyfloat \<Rightarrow> pyfloat \<Rightarrow> pyfloat" where
  "fmul NaN y = NaN"
| "fmul x NaN = NaN"
| "fmul (Inf s) (Inf t) = Inf (s \<noteq> t)"
| "fmul (Inf s) (Fl t n) = (if n = 0 then NaN else Inf (s \<noteq> t))"
| "fmul (Fl s m) (Inf t) = (if m = 0 then NaN else Inf (s \<noteq> t))"
| "fmul (Fl s m) (Fl t n) = fl (s \<noteq> t) (m * n)"

text \<open>The quotient for a divisor that is not zero.\<close>

fun fdiv :: "pyfloat \<Rightarrow> pyfloat \<Rightarrow> pyfloat" where
  "fdiv NaN y = NaN"
| "fdiv x NaN = NaN"
| "fdiv (Inf s) (Inf t) = NaN"
| "fdiv (Inf s) (Fl t n) = Inf (s \<noteq> t)"
| "fdiv (Fl s m) (Inf t) = Fl (s \<noteq> t) 0"
| "fdiv (Fl s m) (Fl t n) = fl (s \<noteq> t) (m / n)"

definition is_zero :: "pyfloat \<Rightarrow> bool" where
  "is_zero x = (case x of Fl s m \<Rightarrow> m = 0 | _ \<Rightarrow> False)"

text \<open>The division operator raises on a zero divisor, of either sign.\<close>

definition py_div :: "pyfloat \<Rightarrow> pyfloat \<Rightarrow> py_error + pyfloat" where
  "py_div a b = (if is_zero b then Inl ZeroDivisionError else Inr (fdiv a b))"

fun fadd :: "pyfloat \<Rightarrow> pyfloat \<Rightarrow> pyfloat" where
  "fadd NaN y = NaN"
| "fadd x NaN = NaN"
| "fadd (Inf s) (Inf t) = (if s = t then Inf s else NaN)"
| "fadd (Inf s) (Fl t n) = Inf s"
| "fadd (Fl s m) (Inf t) = Inf t"
| "fadd (Fl s m) (Fl t n) =
     (let v = signed s m + signed t n
      in if v = 0 then Fl (s \<and> t) 0 else fl (v < 0) \<bar>v\<bar>)"

definition fabs :: "pyfloat \<Rightarrow> pyfloat" where
  "fabs x = (case x of Fl s m \<Rightarrow> Fl False m | Inf s \<Rightarrow> Inf False | NaN \<Rightarrow> NaN)"

fun fgt :: "pyfloat \<Rightarrow> pyfloat \<Rightarrow> bool" where
  "fgt NaN y = False"
| "fgt x NaN = False"
| "fgt (Inf s) (Inf t) = (\<not> s \<and> t)"
| "fgt (Inf s) (Fl t n) = (\<not> s)"
| "fgt (Fl s m) (Inf t) = t"
| "fgt (Fl s m) (Fl t n) = (signed s m > signed t n)"

definition flt :: "pyfloat \<Rightarrow> pyfloat \<Rightarrow> bool" where
  "flt x y = fgt y x"

fun feq :: "pyfloat \<Rightarrow> pyfloat \<Rightarrow> bool" where
  "feq (Fl s m) (Fl t n) = (signed s m = signed t n)"
| "feq (Inf s) (Inf t) = (s = t)"
| "feq x y = False"

text \<open>Decimal digits of a natural number, and of an integer.\<close>

fun digits10 :: "nat \<Rightarrow> string" where
  "digits10 n =
     (if n < 10 then [''0123456789'' ! n]
      else digits10 (n div 10) @ [''0123456789'' ! (n mod 10)])"

definition fmt_int :: "int \<Rightarrow> string" where
  "fmt_int i = (if i < 0 then ''-'' else []) @ digits10 (nat \<bar>i\<bar>)"

text \<open>
  The format \<open>.2f\<close>: the exact value rounded to two decimals, ties to even, with the sign
  of the float.
\<close>

definition fmt_f2 :: "pyfloat \<Rightarrow> string" where
  "fmt_f2 x =
     (case x of
        Fl s m \<Rightarrow>
          (let n = nat (round_half_even (m * 100))
           in (if s then ''-'' else []) @ digits10 (n div 100) @ ''.''
                @ digits10 (n mod 100 div 10) @ digits10 (n mod 10))
      | Inf s \<Rightarrow> (if s then ''-inf'' else ''inf'')
      | NaN \<Rightarrow> ''nan'')"

text \<open>The format \<open>.2%\<close>: the float product with 100 in \<open>.2f\<close>, then a percent sign.\<close>

definition fmt_pct :: "pyfloat \<Rightarrow> string" where
  "fmt_pct x = fmt_f2 (fmul x (Fl False 100)) @ ''%''"

definition fmt_str :: "string option \<Rightarrow> string" where
  "fmt_str s = (case s of None \<Rightarrow> ''None'' | Some t \<Rightarrow> t)"

text \<open>
  Values stored in the \<open>details\<close> dictionaries handed to the order state manager.  A
  dictionary is an association list, and \<open>d.get(k)\<close> is \<open>None\<close> for a missing key.
\<close>

datatype pyval = PNone | PBool bool | PInt int | PFloat pyfloat | PStr string

type_synonym pydict = "(string \<times> pyval) list"

definition dict_get :: "pydict \<Rightarrow> string \<Rightarrow> pyval" where
  "dict_get d k = (case map_of d k of None \<Rightarrow> PNone | Some v \<Rightarrow> v)"

text \<open>
  The operator \<open>==\<close>: numbers compare by exact value, a bool counting as the integer 0 or
  1; strings compare with strings; \<open>None\<close> equals only \<open>None\<close>.
\<close>

fun number_of :: "pyval \<Rightarrow> pyfloat option" where
  "number_of (PBool b) = Some (Fl False (if b then 1 else 0))"
| "number_of (PInt i) = Some (flo (of_int i))"
| "number_of (PFloat x) = Some x"
| "number_of v = None"

fun py_eq :: "pyval \<Rightarrow> pyval \<Rightarrow> bool" where
  "py_eq PNone PNone = True"
| "py_eq (PStr s) (PStr t) = (s = t)"
| "py_eq a b =
     (case (number_of a, number_of b) of (Some x, Some y) \<Rightarrow> feq x y | _ \<Rightarrow> False)"

section \<open>order\_manager/order\_state.py\<close>

datatype OrderState = PENDING | SENT | FILLED | PARTIALLY_FILLED | CANCELED | REJECTED | ERROR

text \<open>One history entry; \<open>timestamp\<close> is the reading of \<open>datetime.utcnow()\<close>.\<close>

record history_entry =
  state :: OrderState
  timestamp :: nat
  details :: "pydict option"

record OrderStateManager =
  order_states :: "string \<rightharpoonup> OrderState"
  order_history :: "string \<rightharpoonup> history_entry list"
  retry_attempts :: "string \<rightharpoonup> int"
  max_retries :: int

text \<open>\<open>__init__\<close>: three empty dictionaries and a ceiling of 3.\<close>

definition new_manager :: OrderStateManager where
  "new_manager =
     \<lparr>order_states = Map.empty, order_history = Map.empty, retry_attempts = Map.empty,
      max_retries = 3\<rparr>"

text \<open>
  \<open>initialize_order\<close> assigns all three dictionaries without looking at what they hold.
  \<open>now\<close> is the clock reading of the call.
\<close>

definition initialize_order :: "OrderStateManager \<Rightarrow> string \<Rightarrow> nat \<Rightarrow> OrderStateManager" where
  "initialize_order s order_id now =
     s\<lparr>order_states := (order_states s)(order_id \<mapsto> PENDING),
       order_history := (order_history s)(order_id \<mapsto>
          [\<lparr>state = PENDING, timestamp = now, details = None\<rparr>]),
       retry_attempts := (retry_attempts s)(order_id \<mapsto> 0)\<rparr>"

text \<open>
  \<open>update_state\<close> reads the clock once in the implicit \<open>initialize_order\<close> (\<open>now0\<close>) and once
  for the appended entry (\<open>now\<close>).  The state is assigned before
  \<open>self.order_history[order_id]\<close> is looked up, so a missing history raises KeyError with
  \<open>order_states\<close> already changed.
\<close>

definition update_state ::
  "OrderStateManager \<Rightarrow> string \<Rightarrow> OrderState \<Rightarrow> pydict option \<Rightarrow> nat \<Rightarrow> nat
     \<Rightarrow> (py_error + unit) \<times> OrderStateManager" where
  "update_state s order_id new_state dets now0 now =
     (let s1 = (if order_states s order_id = None then initialize_order s order_id now0 else s);
          s2 = s1\<lparr>order_states := (order_states s1)(order_id \<mapsto> new_state)\<rparr>
      in case order_history s2 order_id of
           None \<Rightarrow> (Inl KeyError, s2)
         | Some h \<Rightarrow>
             (Inr (),
              s2\<lparr>order_history := (order_history s2)(order_id \<mapsto>
                   h @ [\<lparr>state = new_state, timestamp = now, details = dets\<rparr>])\<rparr>))"

definition get_current_state :: "OrderStateManager \<Rightarrow> string \<Rightarrow> OrderState option" where
  "get_current_state s order_id = order_states s order_id"

definition get_state_history :: "OrderStateManager \<Rightarrow> string \<Rightarrow> history_entry list" where
  "get_state_history s order_id =
     (case order_history s order_id of None \<Rightarrow> [] | Some h \<Rightarrow> h)"

text \<open>
  \<open>should_retry\<close>: the counter is read with \<open>.get(order_id, 0)\<close> but incremented with
  \<open>self.retry_attempts[order_id] += 1\<close>, which raises KeyError when the key is missing.
\<close>

definition should_retry ::
  "OrderStateManager \<Rightarrow> string \<Rightarrow> (py_error + bool) \<times> OrderStateManager" where
  "should_retry s order_id =
     (case order_states s order_id of
        None \<Rightarrow> (Inr False, s)
      | Some current_state \<Rightarrow>
          (let retry_count = (case retry_attempts s order_id of None \<Rightarrow> 0 | Some c \<Rightarrow> c)
           in if current_state \<in> set [ERROR, REJECTED] \<and> retry_count < max_retries s
              then (case retry_attempts s order_id of
                      None \<Rightarrow> (Inl KeyError, s)
                    | Some c \<Rightarrow>
                        (Inr True, s\<lparr>retry_attempts := (retry_attempts s)(order_id \<mapsto> c + 1)\<rparr>))
              else (Inr False, s)))"

definition status_mapping :: "(string \<times> OrderState) list" where
  "status_mapping =
     [(''new'', SENT), (''open'', SENT), (''closed'', FILLED), (''canceled'', CANCELED),
      (''expired'', CANCELED), (''rejected'', REJECTED), (''failed'', ERROR)]"

text \<open>
  \<open>reconcile_with_exchange\<close>: the partial-fill test compares the status as given, the table
  lookup lower-cases it first.
\<close>

definition reconcile_with_exchange ::
  "OrderStateManager \<Rightarrow> string \<Rightarrow> string \<Rightarrow> pydict \<Rightarrow> nat \<Rightarrow> nat
     \<Rightarrow> (py_error + unit) \<times> OrderStateManager" where
  "reconcile_with_exchange s order_id exchange_status dets now0 now =
     (let new_state =
            (if exchange_status = ''closed''
                 \<and> \<not> py_eq (dict_get dets ''filled'') (dict_get dets ''amount'')
             then PARTIALLY_FILLED
             else (case map_of status_mapping (lower exchange_status) of
                     None \<Rightarrow> ERROR | Some st \<Rightarrow> st))
      in update_state s order_id new_state (Some dets) now0 now)"

text \<open>
  A caller's sequence of calls on one manager.  A call that raises leaves the manager as
  the raising statement found it, and the sequence goes on from there.
\<close>

datatype osm_call =
    Initialize string nat
  | Update string OrderState "pydict option" nat nat
  | Reconcile string string pydict nat nat
  | ShouldRetry string

fun call :: "OrderStateManager \<Rightarrow> osm_call \<Rightarrow> (py_error + bool) option \<times> OrderStateManager" where
  "call s (Initialize k now) = (None, initialize_order s k now)"
| "call s (Update k st d now0 now) = (None, snd (update_state s k st d now0 now))"
| "call s (Reconcile k status d now0 now) =
     (None, snd (reconcile_with_exchange s k status d now0 now))"
| "call s (ShouldRetry k) = (Some (fst (should_retry s k)), snd (should_retry s k))"

text \<open>The manager after a sequence of calls.\<close>

fun calls :: "OrderStateManager \<Rightarrow> osm_call list \<Rightarrow> OrderStateManager" where
  "calls s [] = s"
| "calls s (c # cs) = calls (snd (call s c)) cs"

text \<open>How many \<open>should_retry\<close> calls for key \<open>k\<close> in the sequence answer True.\<close>

fun retries_granted :: "string \<Rightarrow> OrderStateManager \<Rightarrow> osm_call list \<Rightarrow> nat" where
  "retries_granted k s [] = 0"
| "retries_granted k s (c # cs) =
     (if c = ShouldRetry k \<and> fst (call s c) = Some (Inr True) then 1 else 0)
       + retries_granted k (snd (call s c)) cs"

text \<open>
  No call of the sequence runs \<open>initialize_order\<close> on key \<open>k\<close> while \<open>k\<close> already has a record.
\<close>

fun no_reinitialize :: "string \<Rightarrow> OrderStateManager \<Rightarrow> osm_call list \<Rightarrow> bool" where
  "no_reinitialize k s [] = True"
| "no_reinitialize k s (c # cs) =
     ((case c of Initialize k' now \<Rightarrow> k' \<noteq> k \<or> order_states s k = None | _ \<Rightarrow> True)
      \<and> no_reinitialize k (snd (call s c)) cs)"

text \<open>The retries still available to key \<open>k\<close>.\<close>

definition retry_budget :: "OrderStateManager \<Rightarrow> string \<Rightarrow> nat" where
  "retry_budget s k =
     (case order_states s k of
        None \<Rightarrow> nat (max_retries s)
      | Some st \<Rightarrow> nat (max_retries s - (case retry_attempts s k of None \<Rightarrow> 0 | Some c \<Rightarrow> c)))"

text \<open>
  The invariant of the history: every key of \<open>order_states\<close> has a non-empty history whose
  last entry carries the key's current state.
\<close>

definition history_inv :: "OrderStateManager \<Rightarrow> bool" where
  "history_inv s =
     (\<forall>k st. order_states s k = Some st \<longrightarrow>
        (\<exists>h. order_history s k = Some h \<and> h \<noteq> [] \<and> state (last h) = st))"


text \<open>The answers of the \<open>should_retry\<close> calls of a sequence, in order.\<close>

fun answers :: "OrderStateManager \<Rightarrow> osm_call list \<Rightarrow> (py_error + bool) list" where
  "answers s [] = []"
| "answers s (c # cs) =
     (case fst (call s c) of None \<Rightarrow> [] | Some a \<Rightarrow> [a]) @ answers (snd (call s c)) cs"

text \<open>Concrete managers and call sequences used to evaluate the functions.\<close>

definition errored_manager :: OrderStateManager where
  "errored_manager = snd (update_state new_manager ''o1'' ERROR None 0 1)"

definition retried_manager :: OrderStateManager where
  "retried_manager = snd (should_retry errored_manager ''o1'')"

definition reinitializing_calls :: "osm_call list" where
  "reinitializing_calls =
     [Update ''o1'' ERROR None 0 1, ShouldRetry ''o1'', ShouldRetry ''o1'', ShouldRetry ''o1'',
      Initialize ''o1'' 2, Update ''o1'' ERROR None 3 4, ShouldRetry ''o1'']"

text \<open>The venue detail of a partly filled order: 0.4 filled of an amount of 1.0.\<close>

definition partial_fill :: pydict where
  "partial_fill =
     [(''filled'', PFloat (Fl False (3602879701896397 / 9007199254740992))),
      (''amount'', PFloat (Fl False 1))]"

section \<open>risk\_manager/risk\_manager.py\<close>

text \<open>
  An order is the dictionary handed to \<open>evaluate_order\<close> and \<open>process_order\<close>.  Its
  \<open>order_id\<close> may be missing, \<open>None\<close> or a string (the request schema declares it optional
  and fills in \<open>None\<close>).  In the other fields \<open>None\<close> is a missing key; quantity and price,
  when present, are floats, as the request schema requires.
\<close>

record order =
  order_id :: "string entry"
  symbol :: "string option"
  side :: "string option"
  quantity :: "pyfloat option"
  price :: "pyfloat option"
  order_type :: "string option"

text \<open>The position dictionary that the order manager builds on a fill.\<close>

record position =
  pos_symbol :: "string option"
  pos_side :: "string option"
  pos_quantity :: "pyfloat option"
  pos_price :: "pyfloat option"
  pos_value :: "pyfloat option"

record risk_config =
  cfg_max_position_size :: "rat option"
  cfg_max_daily_loss :: "rat option"
  cfg_max_open_positions :: "int option"
  cfg_max_exposure_per_asset :: "rat option"

text \<open>The floats 0.05, 0.02 and 0.10 of the default configuration, and 0.1 and 0.5.\<close>

definition d_0_05 :: rat where
  "d_0_05 = 3602879701896397 / 72057594037927936"

definition d_0_02 :: rat where
  "d_0_02 = 5764607523034235 / 288230376151711744"

definition d_0_1 :: rat where
  "d_0_1 = 3602879701896397 / 36028797018963968"

text \<open>
  The limits are finite floats, held as their exact values.  \<open>open_positions\<close> is a
  dictionary keyed by the position's symbol: an association list in insertion order, written
  with \<open>AList.update\<close> and \<open>AList.delete\<close>.
\<close>

record RiskManager =
  max_position_size :: rat
  max_daily_loss :: rat
  max_open_positions :: int
  max_exposure_per_asset :: rat
  open_positions :: "(string option \<times> position) list"
  daily_pnl :: pyfloat
  daily_trades :: "pydict list"
  last_reset :: nat

definition RiskManager_init :: "risk_config \<Rightarrow> nat \<Rightarrow> RiskManager" where
  "RiskManager_init config now =
     \<lparr>max_position_size = (case cfg_max_position_size config of None \<Rightarrow> d_0_05 | Some v \<Rightarrow> v),
      max_daily_loss = (case cfg_max_daily_loss config of None \<Rightarrow> d_0_02 | Some v \<Rightarrow> v),
      max_open_positions = (case cfg_max_open_positions config of None \<Rightarrow> 5 | Some v \<Rightarrow> v),
      max_exposure_per_asset =
        (case cfg_max_exposure_per_asset config of None \<Rightarrow> d_0_1 | Some v \<Rightarrow> v),
      open_positions = [], daily_pnl = fzero, daily_trades = [], last_reset = now\<rparr>"

definition default_config :: risk_config where
  "default_config =
     \<lparr>cfg_max_position_size = None, cfg_max_daily_loss = None, cfg_max_open_positions = None,
      cfg_max_exposure_per_asset = None\<rparr>"

definition reset_daily_metrics :: "RiskManager \<Rightarrow> nat \<Rightarrow> RiskManager" where
  "reset_daily_metrics rm now = rm\<lparr>daily_pnl := fzero, daily_trades := [], last_reset := now\<rparr>"

record decision =
  approved :: bool
  reason :: "string option"

text \<open>\<open>side.lower() == "buy"\<close>, which raises AttributeError when the order has no side.\<close>

definition side_is_buy :: "string option \<Rightarrow> py_error + bool" where
  "side_is_buy sd = (case sd of None \<Rightarrow> Inl AttributeError | Some t \<Rightarrow> Inr (lower t = ''buy''))"

text \<open>
  The loop that adds up, from 0, the value of the positions held under the order's symbol;
  a position without a value counts as 0.
\<close>

fun exposure_of :: "string option \<Rightarrow> pyfloat \<Rightarrow> (string option \<times> position) list \<Rightarrow> pyfloat" where
  "exposure_of smb acc [] = acc"
| "exposure_of smb acc ((k, p) # ps) =
     exposure_of smb
       (if k = smb then fadd acc (case pos_value p of None \<Rightarrow> fzero | Some v \<Rightarrow> v) else acc) ps"

definition reject :: "string \<Rightarrow> decision" where
  "reject msg = \<lparr>approved = False, reason = Some msg\<rparr>"

text \<open>
  The position size that \<open>evaluate_order\<close> computes: the float product of quantity and
  price (each 0 when missing), divided in floats by the balance when the balance is above
  zero, and infinite otherwise.
\<close>

definition position_size ::
  "order \<Rightarrow> pyfloat \<Rightarrow> py_error + pyfloat" where
  "position_size ord account_balance =
     (let qty = (case quantity ord of None \<Rightarrow> fzero | Some q \<Rightarrow> q);
          prc = (case price ord of None \<Rightarrow> fzero | Some p \<Rightarrow> p);
          order_value = fmul qty prc
      in if fgt account_balance fzero then py_div order_value account_balance
         else Inr (Inf False))"

text \<open>
  \<open>evaluate_order\<close> returns its result together with the risk manager as the call leaves it.
  Both divisions stand behind the test \<open>account_balance > 0\<close>.
\<close>

definition evaluate_order ::
  "RiskManager \<Rightarrow> order \<Rightarrow> pyfloat \<Rightarrow> (py_error + decision) \<times> RiskManager" where
  "evaluate_order rm ord account_balance =
     (case position_size ord account_balance of
        Inl e \<Rightarrow> (Inl e, rm)
      | Inr position_size_pct \<Rightarrow>
          if fgt position_size_pct (flo (max_position_size rm))
          then (Inr (reject (''Position size '' @ fmt_pct position_size_pct
                  @ '' exceeds maximum '' @ fmt_pct (flo (max_position_size rm)))), rm)
          else
            (case (if int (length (open_positions rm)) \<ge> max_open_positions rm
                   then side_is_buy (side ord) else Inr False) of
               Inl e \<Rightarrow> (Inl e, rm)
             | Inr True \<Rightarrow>
                 (Inr (reject (''Maximum open positions ('' @ fmt_int (max_open_positions rm)
                    @ '') reached'')), rm)
             | Inr False \<Rightarrow>
                 (let current_exposure = exposure_of (symbol ord) fzero (open_positions rm)
                  in case (if fgt account_balance fzero
                           then py_div current_exposure account_balance else Inr fzero) of
                       Inl e \<Rightarrow> (Inl e, rm)
                     | Inr current_exposure_pct \<Rightarrow>
                         (case side_is_buy (side ord) of
                            Inl e \<Rightarrow> (Inl e, rm)
                          | Inr buy \<Rightarrow>
                              (let new_exposure_pct =
                                     (if buy then fadd current_exposure_pct position_size_pct
                                      else current_exposure_pct)
                               in if fgt new_exposure_pct (flo (max_exposure_per_asset rm))
                                  then (Inr (reject (''Total exposure to '' @ fmt_str (symbol ord)
                                          @ '' ('' @ fmt_pct new_exposure_pct
                                          @ '') exceeds maximum ''
                                          @ fmt_pct (flo (max_exposure_per_asset rm)))), rm)
                                  else if flt (daily_pnl rm) fzero
                                        \<and> fgt (fabs (daily_pnl rm))
                                              (fmul account_balance (flo (max_daily_loss rm)))
                                  then (Inr (reject (''Daily loss limit reached (''
                                          @ fmt_f2 (fabs (daily_pnl rm)) @ '' > ''
                                          @ fmt_f2 (fmul account_balance (flo (max_daily_loss rm)))
                                          @ '')'')), rm)
                                  else (Inr \<lparr>approved = True, reason = None\<rparr>, rm))))))"

definition record_position_open :: "RiskManager \<Rightarrow> position \<Rightarrow> RiskManager" where
  "record_position_open rm p =
     rm\<lparr>open_positions := AList.update (pos_symbol p) p (open_positions rm)\<rparr>"

text \<open>\<open>record_position_close\<close>: the realized P&L is added to the daily P&L in floats.\<close>

definition record_position_close :: "RiskManager \<Rightarrow> string option \<Rightarrow> pyfloat \<Rightarrow> RiskManager" where
  "record_position_close rm smb pnl =
     (if smb \<in> set (map fst (open_positions rm))
      then rm\<lparr>open_positions := AList.delete smb (open_positions rm),
              daily_pnl := fadd (daily_pnl rm) pnl\<rparr>
      else rm)"

text \<open>A sequence of position calls on one risk manager.\<close>

datatype risk_call = Open position | Close "string option" pyfloat

fun record_all :: "RiskManager \<Rightarrow> risk_call list \<Rightarrow> RiskManager" where
  "record_all rm [] = rm"
| "record_all rm (Open p # cs) = record_all (record_position_open rm p) cs"
| "record_all rm (Close smb pnl # cs) = record_all (record_position_close rm smb pnl) cs"

text \<open>The realized-P&L arguments of the close calls of a sequence.\<close>

fun close_pnls :: "risk_call list \<Rightarrow> pyfloat list" where
  "close_pnls [] = []"
| "close_pnls (Open p # cs) = close_pnls cs"
| "close_pnls (Close smb pnl # cs) = pnl # close_pnls cs"

text \<open>
  Read off the sequence alone, given the symbols open at its start: the arguments of the
  close calls whose symbol is open when they are made, and whether every close call is such.
\<close>

fun matched_pnls :: "string option list \<Rightarrow> risk_call list \<Rightarrow> pyfloat list" where
  "matched_pnls opened [] = []"
| "matched_pnls opened (Open p # cs) = matched_pnls (pos_symbol p # opened) cs"
| "matched_pnls opened (Close smb pnl # cs) =
     (if smb \<in> set opened then pnl # matched_pnls (removeAll smb opened) cs
      else matched_pnls opened cs)"

fun all_matched :: "string option list \<Rightarrow> risk_call list \<Rightarrow> bool" where
  "all_matched opened [] = True"
| "all_matched opened (Open p # cs) = all_matched (pos_symbol p # opened) cs"
| "all_matched opened (Close smb pnl # cs) =
     (smb \<in> set opened \<and> all_matched (removeAll smb opened) cs)"

text \<open>The float sum of a list, accumulated from 0.0 from left to right.\<close>

definition float_sum :: "pyfloat list \<Rightarrow> pyfloat" where
  "float_sum xs = foldl fadd fzero xs"

text \<open>The exact sum of the values of a list of finite floats.\<close>

fun exact_sum :: "pyfloat list \<Rightarrow> rat" where
  "exact_sum [] = 0"
| "exact_sum (Fl s m # xs) = signed s m + exact_sum xs"
| "exact_sum (x # xs) = exact_sum xs"

text \<open>Concrete inputs used to evaluate the functions.\<close>

definition btc_buy :: order where
  "btc_buy =
     \<lparr>order_id = Val ''o1'', symbol = Some ''BTC/USDT'', side = Some ''buy'',
      quantity = Some (Fl False (1 / 2)), price = Some (Fl False 20000),
      order_type = Some ''limit''\<rparr>"

definition tight_manager :: RiskManager where
  "tight_manager = RiskManager_init (default_config\<lparr>cfg_max_position_size := Some d_0_1\<rparr>) 0"

text \<open>
  A manager whose position limit is the float nearest to one third, with a unit order on a
  balance of 3.
\<close>

definition third_manager :: RiskManager where
  "third_manager =
     RiskManager_init
       (default_config\<lparr>cfg_max_position_size := Some (6004799503160661 / 18014398509481984),
          cfg_max_exposure_per_asset := Some (1 / 2)\<rparr>) 0"

definition unit_buy :: order where
  "unit_buy =
     \<lparr>order_id = Val ''o2'', symbol = Some ''BTC/USDT'', side = Some ''buy'',
      quantity = Some (Fl False 1), price = Some (Fl False 1), order_type = Some ''limit''\<rparr>"

definition btc_position :: position where
  "btc_position =
     \<lparr>pos_symbol = Some ''BTC/USDT'', pos_side = Some ''buy'', pos_quantity = Some (Fl False 1),
      pos_price = Some (Fl False 100), pos_value = Some (Fl False 100)\<rparr>"

definition eth_position :: position where
  "eth_position =
     \<lparr>pos_symbol = Some ''ETH/USDT'', pos_side = Some ''buy'', pos_quantity = Some (Fl False 2),
      pos_price = Some (Fl False 50), pos_value = Some (Fl False 100)\<rparr>"

definition paired_calls :: "risk_call list" where
  "paired_calls =
     [Open btc_position, Open eth_position, Close (Some ''BTC/USDT'') (Fl False 7),
      Close (Some ''ETH/USDT'') (Fl True 3)]"

definition absorbing_calls :: "risk_call list" where
  "absorbing_calls =
     [Open btc_position, Open eth_position,
      Close (Some ''BTC/USDT'') (Fl False 10000000000000000),
      Close (Some ''ETH/USDT'') (Fl False 1)]"

section \<open>order\_manager/order\_manager.py\<close>

text \<open>
  The exchange adapter is outside the repository's core: what its calls answer is an input.
  A call either raises (with a message) or returns.
\<close>

datatype 'a outcome = Raises string | Returns 'a

text \<open>
  The dictionary an adapter returns for an order.  The status, the filled quantity, the
  price and the fee may each be missing, \<open>None\<close> or present; a present fee is a dictionary
  whose cost is \<open>None\<close> here when it has no \<open>cost\<close> key.  In the other fields \<open>None\<close> is a
  missing key.  A result that Python treats as false (\<open>None\<close> or an empty dictionary) is the
  \<open>None\<close> of \<open>venue_result option\<close>.
\<close>

record venue_result =
  vr_id :: "string option"
  vr_status :: "string entry"
  vr_symbol :: "string option"
  vr_filled :: "pyfloat entry"
  vr_price :: "pyfloat entry"
  vr_fee :: "pyfloat option entry"
  vr_error :: "string option"

text \<open>
  The answers of the adapter during one call of the order manager: the \<open>balance\<close> entry of
  \<open>get_account_info\<close> (\<open>None\<close> when the key is missing), the results of \<open>create_order\<close> and
  \<open>get_order_status\<close>, and whether the result of \<open>cancel_order\<close> counts as true.
\<close>

record adapter =
  account_info :: "pyfloat option outcome"
  create_result :: "venue_result option outcome"
  status_result :: "venue_result option outcome"
  cancel_result :: "bool outcome"

datatype adapter_call =
    GetAccountInfo
  | CreateOrder "string option" "string option" "pyfloat option" string "pyfloat option"
  | GetOrderStatus string
  | CancelOrder string "string option"

record trade =
  trade_order_id :: "string option"
  trade_exchange_order_id :: "string option"
  trade_symbol :: "string option"
  trade_side :: "string option"
  trade_quantity :: "pyfloat option"
  trade_price :: "pyfloat option"
  trade_fee :: pyfloat
  trade_timestamp :: nat

text \<open>
  The events of the bus, one constructor per topic.  An order identifier in an event is
  \<open>None\<close> when the order's \<open>order_id\<close> is \<open>None\<close>.
\<close>

datatype event =
    OrderRejected "string option" "string option" nat
  | OrderCreated order "string option" "string option" nat
  | OrderError "string option" py_error nat
  | TradeExecuted trade
  | OrderCanceled string nat

fun topic :: "event \<Rightarrow> string" where
  "topic (OrderRejected i r t) = ''order.rejected''"
| "topic (OrderCreated ord i s t) = ''order.created''"
| "topic (OrderError i e t) = ''order.error''"
| "topic (TradeExecuted tr) = ''trade.executed''"
| "topic (OrderCanceled i t) = ''order.canceled''"

text \<open>
  The order manager with what it acts on: its risk manager, the events it has published and
  the adapter calls it has made, both in order.  Publishing is taken to succeed.
\<close>

record OrderManager =
  running :: bool
  risk_manager :: RiskManager
  published :: "event list"
  adapter_calls :: "adapter_call list"

definition publish :: "OrderManager \<Rightarrow> event \<Rightarrow> OrderManager" where
  "publish om e = om\<lparr>published := published om @ [e]\<rparr>"

definition invoke :: "OrderManager \<Rightarrow> adapter_call \<Rightarrow> OrderManager" where
  "invoke om c = om\<lparr>adapter_calls := adapter_calls om @ [c]\<rparr>"




definition error_status :: "string \<Rightarrow> venue_result" where
  "error_status msg =
     \<lparr>vr_id = None, vr_status = Val ''error'', vr_symbol = None, vr_filled = Absent,
      vr_price = Absent, vr_fee = Absent, vr_error = Some msg\<rparr>"

definition get_order_status ::
  "OrderManager \<Rightarrow> adapter \<Rightarrow> string \<Rightarrow> venue_result \<times> OrderManager" where
  "get_order_status om ad oid =
     (if \<not> running om then (error_status ''Order manager not running'', om)
      else
        (let om1 = invoke om (GetOrderStatus oid)
         in case status_result ad of
              Raises msg \<Rightarrow> (error_status msg, om1)
            | Returns None \<Rightarrow> (error_status ''Failed to get order status'', om1)
            | Returns (Some result) \<Rightarrow> (result, om1)))"

text \<open>
  \<open>cancel_order\<close>.  The result of \<open>get_order_status\<close> is never false here, since that
  function puts an error dictionary in place of a false result.
\<close>

definition cancel_order :: "OrderManager \<Rightarrow> adapter \<Rightarrow> string \<Rightarrow> nat \<Rightarrow> bool \<times> OrderManager" where
  "cancel_order om ad oid now =
     (if \<not> running om then (False, om)
      else
        (let (order_status, om1) = get_order_status om ad oid;
             current_status = entry_get (vr_status order_status)
         in if current_status = Some ''error'' then (False, om1)
            else if current_status \<in> set [Some ''filled'', Some ''canceled'', Some ''expired'']
            then (False, om1)
            else
              (let om2 = invoke om1 (CancelOrder oid (vr_symbol order_status))
               in case cancel_result ad of
                    Raises msg \<Rightarrow> (False, om2)
                  | Returns False \<Rightarrow> (False, om2)
                  | Returns True \<Rightarrow> (True, publish om2 (OrderCanceled oid now)))))"

text \<open>Concrete inputs used to evaluate the functions.\<close>

definition started_manager :: OrderManager where
  "started_manager =
     \<lparr>running = True, risk_manager = RiskManager_init default_config 0, published = [],
      adapter_calls = []\<rparr>"


definition venue_status :: "string \<Rightarrow> venue_result" where
  "venue_status s =
     \<lparr>vr_id = Some ''o1'', vr_status = Val s, vr_symbol = Some ''BTC/USDT'',
      vr_filled = Val (Fl False 1), vr_price = Val (Fl False 100), vr_fee = Absent,
      vr_error = None\<rparr>"


definition rejected_adapter :: adapter where
  "rejected_adapter =
     \<lparr>account_info = Returns (Some (Fl False 10000)), create_result = Returns None,
      status_result = Returns (Some (venue_status ''rejected'')), cancel_result = Returns True\<rparr>"

definition closed_adapter :: adapter where
  "closed_adapter =
     \<lparr>account_info = Returns (Some (Fl False 10000)), create_result = Returns None,
      status_result = Returns (Some (venue_status ''closed'')), cancel_result = Returns True\<rparr>"

section \<open>Properties of the order state manager\<close>

subsection \<open>Auxiliary facts\<close>

lemma lower_closed: "lower ''closed'' = ''closed''" by code_simp
lemma lower_new: "lower ''new'' = ''new''" by code_simp
lemma lower_open: "lower ''open'' = ''open''" by code_simp
lemma lower_canceled: "lower ''canceled'' = ''canceled''" by code_simp
lemma lower_expired: "lower ''expired'' = ''expired''" by code_simp
lemma lower_rejected: "lower ''rejected'' = ''rejected''" by code_simp

lemma update_state_unknown:
  "order_states s k = None \<Longrightarrow>
   update_state s k st d now0 now =
     (Inr (), s\<lparr>order_states := (order_states s)(k \<mapsto> st),
        order_history := (order_history s)(k \<mapsto>
          [\<lparr>state = PENDING, timestamp = now0, details = None\<rparr>,
           \<lparr>state = st, timestamp = now, details = d\<rparr>]),
        retry_attempts := (retry_attempts s)(k \<mapsto> 0)\<rparr>)"
  by (simp add: update_state_def initialize_order_def Let_def)

lemma update_state_known:
  "order_states s k = Some a \<Longrightarrow> order_history s k = Some h \<Longrightarrow>
   update_state s k st d now0 now =
     (Inr (), s\<lparr>order_states := (order_states s)(k \<mapsto> st),
        order_history := (order_history s)(k \<mapsto>
          h @ [\<lparr>state = st, timestamp = now, details = d\<rparr>])\<rparr>)"
  by (simp add: update_state_def Let_def)

lemma order_states_update:
  "order_states (snd (update_state s k ns dd now0 now)) k = Some ns"
  by (simp add: update_state_def Let_def split: option.splits)

lemma should_retry_true:
  "fst (should_retry s k) = Inr True \<Longrightarrow>
     \<exists>st c. order_states s k = Some st \<and> st \<in> {ERROR, REJECTED} \<and> retry_attempts s k = Some c
        \<and> c < max_retries s \<and> retry_attempts (snd (should_retry s k)) k = Some (c + 1)"
  by (auto simp add: should_retry_def Let_def split: option.splits if_splits)

lemma should_retry_grant:
  "order_states s k = Some st \<Longrightarrow> st \<in> {ERROR, REJECTED} \<Longrightarrow> retry_attempts s k = Some c \<Longrightarrow>
   c < max_retries s \<Longrightarrow>
   should_retry s k = (Inr True, s\<lparr>retry_attempts := (retry_attempts s)(k \<mapsto> c + 1)\<rparr>)"
  by (auto simp add: should_retry_def Let_def)

lemma should_retry_exhausted:
  "order_states s k = Some st \<Longrightarrow> retry_attempts s k = Some c \<Longrightarrow> \<not> c < max_retries s \<Longrightarrow>
   should_retry s k = (Inr False, s)"
  by (auto simp add: should_retry_def Let_def)

lemma errored_manager_simps:
  "order_states errored_manager ''o1'' = Some ERROR"
  "retry_attempts errored_manager ''o1'' = Some 0"
  "max_retries errored_manager = 3"
  by (simp_all add: errored_manager_def update_state_unknown new_manager_def)

subsection \<open>The retry budget\<close>

text \<open>Every call leaves the ceiling alone.\<close>

lemma max_retries_initialize: "max_retries (initialize_order s k now) = max_retries s"
  by (simp add: initialize_order_def)

lemma max_retries_update: "max_retries (snd (update_state s k st d now0 now)) = max_retries s"
  by (simp add: update_state_def initialize_order_def Let_def split: option.splits)

lemma max_retries_should_retry: "max_retries (snd (should_retry s k)) = max_retries s"
  by (simp add: should_retry_def Let_def split: option.splits)

lemma budget_initialize:
  "k' \<noteq> k \<or> order_states s k = None \<Longrightarrow>
   retry_budget (initialize_order s k' now) k = retry_budget s k"
  by (auto simp add: retry_budget_def initialize_order_def split: option.splits)

lemma budget_update:
  "retry_budget (snd (update_state s k' st d now0 now)) k = retry_budget s k"
  by (auto simp add: retry_budget_def update_state_def initialize_order_def Let_def
      split: option.splits)

text \<open>A granted retry for \<open>k\<close> uses up exactly one unit of \<open>k\<close>'s budget.\<close>

lemma budget_should_retry:
  "(if k' = k \<and> fst (should_retry s k') = Inr True then 1 else 0)
     + retry_budget (snd (should_retry s k')) k = retry_budget s k"
  by (auto simp add: retry_budget_def should_retry_def Let_def split: option.splits)

lemma budget_call:
  assumes "case c of Initialize k' now \<Rightarrow> k' \<noteq> k \<or> order_states s k = None | _ \<Rightarrow> True"
  shows "(if c = ShouldRetry k \<and> fst (call s c) = Some (Inr True) then 1 else 0)
           + retry_budget (snd (call s c)) k = retry_budget s k"
proof (cases c)
  case (Initialize k' now)
  with assms show ?thesis by (simp add: budget_initialize)
next
  case (Update k' st d now0 now)
  then show ?thesis by (simp add: budget_update)
next
  case (Reconcile k' status d now0 now)
  then show ?thesis by (simp add: reconcile_with_exchange_def budget_update)
next
  case (ShouldRetry k')
  then show ?thesis using budget_should_retry [of k' k s] by auto
qed

lemma retries_granted_budget:
  "no_reinitialize k s cs \<Longrightarrow> retries_granted k s cs \<le> retry_budget s k"
proof (induction cs arbitrary: s)
  case Nil
  show ?case by simp
next
  case (Cons c cs)
  from Cons.prems
  have c: "case c of Initialize k' now \<Rightarrow> k' \<noteq> k \<or> order_states s k = None | _ \<Rightarrow> True"
    and rest: "no_reinitialize k (snd (call s c)) cs" by simp_all
  from Cons.IH [OF rest] budget_call [OF c] show ?case by simp
qed

lemma budget_le_max:
  "\<forall>c. retry_attempts s k = Some c \<longrightarrow> 0 \<le> c \<Longrightarrow> retry_budget s k \<le> nat (max_retries s)"
  by (auto simp add: retry_budget_def split: option.splits)

lemma four_checks:
  assumes "order_states s k = Some ERROR" "retry_attempts s k = Some 0" "max_retries s = 3"
  shows "answers s [ShouldRetry k, ShouldRetry k, ShouldRetry k, ShouldRetry k]
           = [Inr True, Inr True, Inr True, Inr False]"
proof -
  let ?s1 = "s\<lparr>retry_attempts := (retry_attempts s)(k \<mapsto> 1)\<rparr>"
  let ?s2 = "s\<lparr>retry_attempts := (retry_attempts s)(k \<mapsto> 2)\<rparr>"
  let ?s3 = "s\<lparr>retry_attempts := (retry_attempts s)(k \<mapsto> 3)\<rparr>"
  have 1: "should_retry s k = (Inr True, ?s1)"
    using should_retry_grant [of s k ERROR 0] assms by simp
  have 2: "should_retry ?s1 k = (Inr True, ?s2)"
    using should_retry_grant [of ?s1 k ERROR 1] assms by simp
  have 3: "should_retry ?s2 k = (Inr True, ?s3)"
    using should_retry_grant [of ?s2 k ERROR 2] assms by simp
  have 4: "should_retry ?s3 k = (Inr False, ?s3)"
    using should_retry_exhausted [of ?s3 k ERROR 3] assms by simp
  show ?thesis by (simp add: 1 2 3 4)
qed

text \<open>
  Claim C1, as the code has it.  \<open>should_retry\<close> answers True only when the key's state is
  ERROR or REJECTED and its counter is below \<open>max_retries\<close>, and a True answer adds one to
  the counter.  Over any sequence of \<open>initialize_order\<close>, \<open>update_state\<close>,
  \<open>reconcile_with_exchange\<close> and \<open>should_retry\<close> calls on any keys in which
  \<open>initialize_order\<close> is never run on key \<open>k\<close> while \<open>k\<close> has a record, \<open>should_retry\<close> answers
  True for \<open>k\<close> at most \<open>max_retries\<close> times.  With a ceiling of 3, a key in ERROR and a
  counter of 0, four consecutive checks answer True, True, True, False.
\<close>

theorem should_retry_bounded:
  "(fst (should_retry s k) = Inr True \<longrightarrow>
      (\<exists>st c. order_states s k = Some st \<and> st \<in> {ERROR, REJECTED} \<and> retry_attempts s k = Some c
         \<and> c < max_retries s \<and> retry_attempts (snd (should_retry s k)) k = Some (c + 1)))
   \<and> (no_reinitialize k s cs \<and> (\<forall>c. retry_attempts s k = Some c \<longrightarrow> 0 \<le> c) \<longrightarrow>
        retries_granted k s cs \<le> nat (max_retries s))
   \<and> (order_states s k = Some ERROR \<and> retry_attempts s k = Some 0 \<and> max_retries s = 3 \<longrightarrow>
        answers s [ShouldRetry k, ShouldRetry k, ShouldRetry k, ShouldRetry k]
          = [Inr True, Inr True, Inr True, Inr False])"
proof -
  have "no_reinitialize k s cs \<and> (\<forall>c. retry_attempts s k = Some c \<longrightarrow> 0 \<le> c) \<longrightarrow>
        retries_granted k s cs \<le> nat (max_retries s)"
    using retries_granted_budget [of k s cs] budget_le_max [of s k] by auto
  then show ?thesis using should_retry_true [of s k] four_checks [of s k] by blast
qed

theorem should_retry_bounded_witness:
  "fst (should_retry errored_manager ''o1'') = Inr True
   \<and> no_reinitialize ''o1'' errored_manager
        [ShouldRetry ''o1'', ShouldRetry ''o1'', ShouldRetry ''o1'', ShouldRetry ''o1'']
   \<and> retry_attempts errored_manager ''o1'' = Some 0
   \<and> max_retries new_manager = 3
   \<and> retry_attempts (snd (should_retry errored_manager ''o1'')) ''o1'' = Some 1
   \<and> retries_granted ''o1'' errored_manager
        [ShouldRetry ''o1'', ShouldRetry ''o1'', ShouldRetry ''o1'', ShouldRetry ''o1''] \<le> 3
   \<and> answers errored_manager
        [ShouldRetry ''o1'', ShouldRetry ''o1'', ShouldRetry ''o1'', ShouldRetry ''o1'']
        = [Inr True, Inr True, Inr True, Inr False]"
proof -
  have g: "fst (should_retry errored_manager ''o1'') = Inr True"
    using should_retry_grant [of errored_manager "''o1''" ERROR 0]
    by (simp add: errored_manager_simps)
  have n: "no_reinitialize ''o1'' errored_manager
        [ShouldRetry ''o1'', ShouldRetry ''o1'', ShouldRetry ''o1'', ShouldRetry ''o1'']"
    by simp
  from g n show ?thesis
    using should_retry_bounded [of errored_manager "''o1''"
        "[ShouldRetry ''o1'', ShouldRetry ''o1'', ShouldRetry ''o1'', ShouldRetry ''o1'']"]
    by (simp add: errored_manager_simps new_manager_def)
qed

text \<open>
  C1 as stated fails: \<open>initialize_order\<close> on a key that has used its three retries sets
  the counter back to 0, and the next check answers True a fourth time.
\<close>

theorem should_retry_bounded_counterexample:
  "\<not> retries_granted ''o1'' new_manager reinitializing_calls \<le> nat (max_retries new_manager)"
  unfolding reinitializing_calls_def new_manager_def
  by code_simp

subsection \<open>Reconciliation with the venue\<close>

text \<open>
  For the statuses spelled in lower case the table and the partial-fill test agree:
  new and open give SENT; closed gives FILLED when the detail's filled and amount are equal
  and PARTIALLY\_FILLED when they are not; canceled and expired give CANCELED; rejected gives
  REJECTED; and a status that in lower case is none of these six gives ERROR.
\<close>

lemma reconcile_lower_case_statuses:
  "(st \<in> {''new'', ''open''} \<longrightarrow>
      reconcile_with_exchange s k st d now0 now = update_state s k SENT (Some d) now0 now)
   \<and> (py_eq (dict_get d ''filled'') (dict_get d ''amount'') \<longrightarrow>
      reconcile_with_exchange s k ''closed'' d now0 now = update_state s k FILLED (Some d) now0 now)
   \<and> (\<not> py_eq (dict_get d ''filled'') (dict_get d ''amount'') \<longrightarrow>
      reconcile_with_exchange s k ''closed'' d now0 now
        = update_state s k PARTIALLY_FILLED (Some d) now0 now)
   \<and> (st \<in> {''canceled'', ''expired''} \<longrightarrow>
      reconcile_with_exchange s k st d now0 now = update_state s k CANCELED (Some d) now0 now)
   \<and> reconcile_with_exchange s k ''rejected'' d now0 now
        = update_state s k REJECTED (Some d) now0 now
   \<and> (lower st \<notin> {''new'', ''open'', ''closed'', ''canceled'', ''expired'', ''rejected''} \<longrightarrow>
      reconcile_with_exchange s k st d now0 now = update_state s k ERROR (Some d) now0 now)"
proof -
  have a: "st \<in> {''new'', ''open''} \<longrightarrow>
      reconcile_with_exchange s k st d now0 now = update_state s k SENT (Some d) now0 now"
    by (auto simp add: reconcile_with_exchange_def status_mapping_def lower_new lower_open)
  have b: "py_eq (dict_get d ''filled'') (dict_get d ''amount'') \<longrightarrow>
      reconcile_with_exchange s k ''closed'' d now0 now = update_state s k FILLED (Some d) now0 now"
    by (simp add: reconcile_with_exchange_def status_mapping_def lower_closed)
  have c: "\<not> py_eq (dict_get d ''filled'') (dict_get d ''amount'') \<longrightarrow>
      reconcile_with_exchange s k ''closed'' d now0 now
        = update_state s k PARTIALLY_FILLED (Some d) now0 now"
    by (simp add: reconcile_with_exchange_def)
  have e: "st \<in> {''canceled'', ''expired''} \<longrightarrow>
      reconcile_with_exchange s k st d now0 now = update_state s k CANCELED (Some d) now0 now"
    by (auto simp add: reconcile_with_exchange_def status_mapping_def lower_canceled lower_expired)
  have f: "reconcile_with_exchange s k ''rejected'' d now0 now
        = update_state s k REJECTED (Some d) now0 now"
    by (simp add: reconcile_with_exchange_def status_mapping_def lower_rejected)
  have g: "lower st \<notin> {''new'', ''open'', ''closed'', ''canceled'', ''expired'', ''rejected''} \<longrightarrow>
      reconcile_with_exchange s k st d now0 now = update_state s k ERROR (Some d) now0 now"
  proof
    assume n: "lower st \<notin> {''new'', ''open'', ''closed'', ''canceled'', ''expired'', ''rejected''}"
    then have "st \<noteq> ''closed''" using lower_closed by auto
    with n show "reconcile_with_exchange s k st d now0 now = update_state s k ERROR (Some d) now0 now"
      by (simp add: reconcile_with_exchange_def status_mapping_def)
  qed
  from a b c e f g show ?thesis by blast
qed

lemma lower_CLOSED: "lower ''CLOSED'' = ''closed''" by code_simp

lemma partial_fill_differs:
  "\<not> py_eq (dict_get partial_fill ''filled'') (dict_get partial_fill ''amount'')"
  by (simp add: partial_fill_def dict_get_def signed_def)

text \<open>The scenario with the status in lower case: the order is left PARTIALLY\_FILLED.\<close>

lemma reconcile_partial_fill:
  "order_states (snd (reconcile_with_exchange new_manager ''o1'' ''closed'' partial_fill 0 1)) ''o1''
     = Some PARTIALLY_FILLED"
  using partial_fill_differs by (simp add: reconcile_with_exchange_def order_states_update)

text \<open>
  Claim C2 does not hold of the code.  The partial-fill test compares the status as the
  venue spells it, the table lookup compares it in lower case: for the status CLOSED with
  0.4 filled of an amount of 1.0 the test is skipped, the table gives FILLED, and the order
  is recorded as FILLED.
\<close>

theorem reconcile_with_exchange_upper_case:
  "order_states (snd (reconcile_with_exchange new_manager ''o1'' ''CLOSED'' partial_fill 0 1)) ''o1''
     = Some FILLED"
  by (simp add: reconcile_with_exchange_def status_mapping_def lower_CLOSED order_states_update)

subsection \<open>The history invariant\<close>

lemma history_inv_new: "history_inv new_manager"
  by (simp add: history_inv_def new_manager_def)

lemma history_inv_initialize: "history_inv s \<Longrightarrow> history_inv (initialize_order s k now)"
  by (simp add: history_inv_def initialize_order_def)

lemma update_state_ok:
  assumes "history_inv s"
  shows "fst (update_state s k st d now0 now) = Inr ()"
proof (cases "order_states s k")
  case None
  then show ?thesis by (simp add: update_state_unknown)
next
  case (Some a)
  with assms obtain h where "order_history s k = Some h"
    unfolding history_inv_def by blast
  with Some show ?thesis by (simp add: update_state_known)
qed

lemma history_inv_update:
  assumes "history_inv s"
  shows "history_inv (snd (update_state s k st d now0 now))"
proof (cases "order_states s k")
  case None
  with assms show ?thesis by (simp add: update_state_unknown history_inv_def)
next
  case (Some a)
  with assms obtain h where "order_history s k = Some h"
    unfolding history_inv_def by blast
  with Some assms show ?thesis by (simp add: update_state_known history_inv_def)
qed

lemma history_inv_should_retry: "history_inv s \<Longrightarrow> history_inv (snd (should_retry s k))"
  by (auto simp add: history_inv_def should_retry_def Let_def split: option.splits)

text \<open>
  Claim C9.  A fresh manager satisfies the history invariant; after \<open>initialize_order\<close> the
  key's history is non-empty and its last entry carries the key's current state; and from a
  manager that satisfies the invariant, \<open>initialize_order\<close>, \<open>update_state\<close>,
  \<open>reconcile_with_exchange\<close> and \<open>should_retry\<close> all lead to one that satisfies it, the two
  updating calls without raising.
\<close>

theorem history_inv_preserved:
  "history_inv new_manager
   \<and> (\<exists>h. order_history (initialize_order s k now) k = Some h \<and> h \<noteq> []
        \<and> order_states (initialize_order s k now) k = Some (state (last h)))
   \<and> (history_inv s \<longrightarrow>
        history_inv (initialize_order s k now)
        \<and> fst (update_state s k st d now0 now) = Inr ()
        \<and> history_inv (snd (update_state s k st d now0 now))
        \<and> fst (reconcile_with_exchange s k status dd now0 now) = Inr ()
        \<and> history_inv (snd (reconcile_with_exchange s k status dd now0 now))
        \<and> history_inv (snd (should_retry s k)))"
proof -
  have "\<exists>h. order_history (initialize_order s k now) k = Some h \<and> h \<noteq> []
        \<and> order_states (initialize_order s k now) k = Some (state (last h))"
    by (simp add: initialize_order_def)
  moreover have "history_inv s \<longrightarrow>
        fst (reconcile_with_exchange s k status dd now0 now) = Inr ()
        \<and> history_inv (snd (reconcile_with_exchange s k status dd now0 now))"
    unfolding reconcile_with_exchange_def Let_def
    using update_state_ok history_inv_update by blast
  ultimately show ?thesis
    using history_inv_new history_inv_initialize update_state_ok history_inv_update
      history_inv_should_retry by blast
qed

theorem history_inv_preserved_witness:
  "history_inv new_manager
   \<and> history_inv (snd (update_state new_manager ''o1'' SENT None 0 1))
   \<and> order_states (snd (update_state new_manager ''o1'' SENT None 0 1)) ''o1'' = Some SENT
   \<and> map state (get_state_history (snd (update_state new_manager ''o1'' SENT None 0 1)) ''o1'')
       = [PENDING, SENT]"
  using history_inv_preserved [of new_manager "''o1''" 1 SENT None 0 "''open''" "[]"]
  by (simp add: update_state_unknown new_manager_def get_state_history_def)

subsection \<open>Initialisation\<close>

text \<open>
  Claim C5, as the code has it.  \<open>initialize_order\<close> gives the key a record in PENDING with
  a history of exactly one PENDING entry and a retry counter of 0, whether or not the key had
  a record: an existing record is replaced.  So two calls in a row leave one PENDING entry,
  a second call at the same clock reading changes nothing, and the records of other keys
  and the ceiling are left alone.
\<close>

theorem initialize_order_resets:
  "order_states (initialize_order s k now) k = Some PENDING
   \<and> order_history (initialize_order s k now) k
       = Some [\<lparr>state = PENDING, timestamp = now, details = None\<rparr>]
   \<and> retry_attempts (initialize_order s k now) k = Some 0
   \<and> get_state_history (initialize_order (initialize_order s k now) k now') k
       = [\<lparr>state = PENDING, timestamp = now', details = None\<rparr>]
   \<and> initialize_order (initialize_order s k now) k now = initialize_order s k now
   \<and> max_retries (initialize_order s k now) = max_retries s
   \<and> (k' \<noteq> k \<longrightarrow>
        order_states (initialize_order s k now) k' = order_states s k'
        \<and> order_history (initialize_order s k now) k' = order_history s k'
        \<and> retry_attempts (initialize_order s k now) k' = retry_attempts s k')"
  by (simp add: initialize_order_def get_state_history_def)

theorem initialize_order_resets_witness:
  "''o2'' \<noteq> ''o1''
   \<and> order_states (initialize_order retried_manager ''o1'' 5) ''o1'' = Some PENDING
   \<and> get_state_history (initialize_order retried_manager ''o1'' 5) ''o1''
       = [\<lparr>state = PENDING, timestamp = 5, details = None\<rparr>]
   \<and> order_states (initialize_order retried_manager ''o1'' 5) ''o2''
       = order_states retried_manager ''o2''"
  using initialize_order_resets [of retried_manager "''o1''" 5 5 "''o2''"]
  by (simp add: get_state_history_def)

text \<open>
  C5 as stated fails: on a record that has moved to ERROR and used one retry, a second
  \<open>initialize_order\<close> changes the state, the history and the retry counter.
\<close>

theorem initialize_order_idempotent_counterexample:
  "order_states (initialize_order retried_manager ''o1'' 2) ''o1''
     \<noteq> order_states retried_manager ''o1''
   \<and> order_history (initialize_order retried_manager ''o1'' 2) ''o1''
     \<noteq> order_history retried_manager ''o1''
   \<and> retry_attempts (initialize_order retried_manager ''o1'' 2) ''o1''
     \<noteq> retry_attempts retried_manager ''o1''"
  unfolding retried_manager_def errored_manager_def new_manager_def
  by code_simp

section \<open>Evaluating float arithmetic\<close>

text \<open>Rules that let the simplifier compute a rounding on numerals.\<close>

lemma floor_numeral_div: "\<lfloor>numeral a / numeral b :: rat\<rfloor> = numeral a div numeral b"
  using floor_divide_of_int_eq [of "numeral a" "numeral b", where ?'a = rat] by simp

lemma floor_one_div: "\<lfloor>1 / numeral b :: rat\<rfloor> = 1 div numeral b"
  using floor_divide_of_int_eq [of 1 "numeral b", where ?'a = rat] by simp

lemmas fl_eval = fl_def round_mag_def ilog2_def pow2_def round_half_even_def Let_def
  floor_numeral_div floor_one_div

text \<open>The literals of the default configuration are the floats nearest to them.\<close>

lemma default_literals:
  "fl False (5 / 100) = Fl False d_0_05"
  "fl False (2 / 100) = Fl False d_0_02"
  "fl False (10 / 100) = Fl False d_0_1"
  by (simp_all add: d_0_05_def d_0_02_def d_0_1_def fl_eval)

section \<open>Properties of the risk manager\<close>

subsection \<open>Order evaluation\<close>

lemma lower_buy: "lower ''buy'' = ''buy''" by code_simp

lemma evaluate_order_frame: "snd (evaluate_order rm ord bal) = rm"
  by (simp add: evaluate_order_def Let_def split: sum.splits bool.splits)

lemma position_size_positive:
  "fgt bal fzero \<Longrightarrow>
   position_size ord bal =
     Inr (fdiv (fmul (case quantity ord of None \<Rightarrow> fzero | Some q \<Rightarrow> q)
                     (case price ord of None \<Rightarrow> fzero | Some p \<Rightarrow> p)) bal)"
  by (cases bal) (auto simp add: position_size_def Let_def py_div_def is_zero_def fzero_def signed_def
      split: if_splits)

lemma position_size_nonpositive:
  "\<not> fgt bal fzero \<Longrightarrow> position_size ord bal = Inr (Inf False)"
  by (simp add: position_size_def Let_def)

lemma position_size_reject:
  assumes "position_size ord bal = Inr x" "fgt x (flo (max_position_size rm))"
  shows "fst (evaluate_order rm ord bal) =
     Inr (reject (''Position size '' @ fmt_pct x
       @ '' exceeds maximum '' @ fmt_pct (flo (max_position_size rm))))"
  using assms by (simp add: evaluate_order_def)

lemma inf_above_limit: "fgt (Inf False) (flo r)"
  by (simp add: flo_def)

lemma fmt_pct_inf: "fmt_pct (Inf False) = ''inf%''"
  by (simp add: fmt_pct_def fmt_f2_def)

lemma position_size_no_zero_division: "position_size ord bal \<noteq> Inl ZeroDivisionError"
  by (cases "fgt bal fzero") (simp_all add: position_size_positive position_size_nonpositive)

lemma guarded_div: "(if fgt bal fzero then py_div a bal else Inr d) \<noteq> Inl ZeroDivisionError"
  by (cases bal) (auto simp add: py_div_def is_zero_def fzero_def signed_def)

lemma side_is_buy_no_div: "side_is_buy sd \<noteq> Inl ZeroDivisionError"
  by (simp add: side_is_buy_def split: option.splits)


lemma py_div_positive: "fgt bal fzero \<Longrightarrow> py_div a bal = Inr (fdiv a bal)"
  by (cases bal) (auto simp add: py_div_def is_zero_def fzero_def signed_def split: if_splits)

lemma no_zero_division: "fst (evaluate_order rm ord bal) \<noteq> Inl ZeroDivisionError"
proof (cases "fgt bal fzero")
  case True
  then show ?thesis
    by (cases "side ord")
      (simp_all add: evaluate_order_def Let_def position_size_positive py_div_positive
        side_is_buy_def)
next
  case False
  then show ?thesis
    using position_size_reject [OF position_size_nonpositive inf_above_limit, of bal rm ord]
    by simp
qed

lemma nonpositive_balance_reject:
  assumes "\<not> fgt bal fzero"
  shows "fst (evaluate_order rm ord bal) =
     Inr (reject (''Position size inf% exceeds maximum '' @ fmt_pct (flo (max_position_size rm))))"
  using position_size_reject [OF position_size_nonpositive inf_above_limit, of bal rm ord] assms
  by (simp add: fmt_pct_inf)

lemma mentions_exceeds: "sublist ''exceeds maximum'' (a @ '' exceeds maximum '' @ b)"
proof -
  have "a @ '' exceeds maximum '' @ b = (a @ '' '') @ ''exceeds maximum'' @ ('' '' @ b)"
    by simp
  then show ?thesis unfolding sublist_def by blast
qed

text \<open>
  Claim C3, as the code has it.  With an account balance above zero, an order whose
  position size as \<open>evaluate_order\<close> computes it, the float product of quantity and price
  divided in floats by the balance, is above \<open>max_position_size\<close> is answered with approved
  False and a reason that contains the words \<open>exceeds maximum\<close>.  A missing quantity or price
  counts as 0, as \<open>order.get(key, 0)\<close> makes it.
\<close>

theorem evaluate_order_position_size:
  assumes "fgt account_balance fzero"
    and "fgt (fdiv (fmul (case quantity ord of None \<Rightarrow> fzero | Some q \<Rightarrow> q)
                         (case price ord of None \<Rightarrow> fzero | Some p \<Rightarrow> p)) account_balance)
             (flo (max_position_size rm))"
  shows "\<exists>r. fst (evaluate_order rm ord account_balance) = Inr \<lparr>approved = False, reason = Some r\<rparr>
           \<and> sublist ''exceeds maximum'' r"
proof -
  let ?x = "fdiv (fmul (case quantity ord of None \<Rightarrow> fzero | Some q \<Rightarrow> q)
                       (case price ord of None \<Rightarrow> fzero | Some p \<Rightarrow> p)) account_balance"
  let ?r = "''Position size '' @ fmt_pct ?x
       @ '' exceeds maximum '' @ fmt_pct (flo (max_position_size rm))"
  have "fst (evaluate_order rm ord account_balance) = Inr (reject ?r)"
    by (rule position_size_reject [OF position_size_positive [OF assms(1)] assms(2)])
  then have e: "fst (evaluate_order rm ord account_balance)
                  = Inr \<lparr>approved = False, reason = Some ?r\<rparr>"
    unfolding reject_def .
  have "?r = (''Position size '' @ fmt_pct ?x)
       @ '' exceeds maximum '' @ fmt_pct (flo (max_position_size rm))"
    by simp
  then have "sublist ''exceeds maximum'' ?r"
    using mentions_exceeds by metis
  with e show ?thesis by blast
qed

lemma tight_manager_limit: "max_position_size tight_manager = d_0_1"
  by (simp add: tight_manager_def RiskManager_init_def default_config_def)

lemma fmt_pct_one: "fmt_pct (Fl False 1) = ''100.00%''"
  by (simp add: fmt_pct_def fmt_f2_def fl_eval)

lemma fmt_pct_tenth: "fmt_pct (flo d_0_1) = ''10.00%''"
  by (simp add: fmt_pct_def fmt_f2_def flo_def d_0_1_def fl_eval)

lemma scenario_a_size:
  "fdiv (fmul (Fl False (1 / 2)) (Fl False 20000)) (Fl False 10000) = Fl False 1"
  by (simp add: fl_eval)

lemma scenario_a:
  "fst (evaluate_order tight_manager btc_buy (Fl False 10000)) =
     Inr \<lparr>approved = False, reason = Some ''Position size 100.00% exceeds maximum 10.00%''\<rparr>"
proof -
  have p: "position_size btc_buy (Fl False 10000) = Inr (Fl False 1)"
    by (simp add: position_size_def py_div_def is_zero_def fzero_def signed_def btc_buy_def
        fl_eval)
  have g: "fgt (Fl False 1) (flo (max_position_size tight_manager))"
    by (simp add: tight_manager_limit flo_def d_0_1_def signed_def)
  from position_size_reject [OF p g] show ?thesis
    by (simp add: tight_manager_limit fmt_pct_one fmt_pct_tenth reject_def)
qed


theorem evaluate_order_position_size_witness:
  "fgt (Fl False 10000) fzero
   \<and> fgt (fdiv (fmul (Fl False (1 / 2)) (Fl False 20000)) (Fl False 10000))
           (flo (max_position_size tight_manager))
   \<and> fst (evaluate_order tight_manager btc_buy (Fl False 10000)) =
       Inr \<lparr>approved = False, reason = Some ''Position size 100.00% exceeds maximum 10.00%''\<rparr>
   \<and> sublist ''exceeds maximum'' ''Position size 100.00% exceeds maximum 10.00%''"
proof -
  have b: "fgt (Fl False 10000) fzero" by (simp add: fzero_def signed_def)
  have q: "fgt (fdiv (fmul (Fl False (1 / 2)) (Fl False 20000)) (Fl False 10000))
               (flo (max_position_size tight_manager))"
    by (simp add: tight_manager_limit flo_def d_0_1_def signed_def fl_eval)
  then have v: "fgt (fdiv (fmul (case quantity btc_buy of None \<Rightarrow> fzero | Some q \<Rightarrow> q)
                           (case price btc_buy of None \<Rightarrow> fzero | Some p \<Rightarrow> p))
                     (Fl False 10000))
               (flo (max_position_size tight_manager))"
    by (simp add: btc_buy_def)
  from evaluate_order_position_size [OF b v] obtain r
    where r: "fst (evaluate_order tight_manager btc_buy (Fl False 10000))
                = Inr \<lparr>approved = False, reason = Some r\<rparr>"
      and s: "sublist ''exceeds maximum'' r"
    by blast
  from r scenario_a have "r = ''Position size 100.00% exceeds maximum 10.00%''" by simp
  with s have "sublist ''exceeds maximum'' ''Position size 100.00% exceeds maximum 10.00%''"
    by simp
  with b q scenario_a show ?thesis by blast
qed

text \<open>
  C3 as stated, with the quotient taken exactly, fails: for a limit that is the float nearest
  to one third, a quantity and a price of 1 and a balance of 3, the exact quotient is above
  the limit, but the float quotient rounds onto the limit and the order is approved.
\<close>

theorem evaluate_order_exact_quotient_counterexample:
  "fgt (Fl False 3) fzero
   \<and> (1 :: rat) * 1 / 3 > max_position_size third_manager
   \<and> fst (evaluate_order third_manager unit_buy (Fl False 3))
       = Inr \<lparr>approved = True, reason = None\<rparr>"
  by (simp add: evaluate_order_def position_size_def py_div_def is_zero_def fzero_def
      signed_def flo_def flt_def side_is_buy_def lower_buy third_manager_def unit_buy_def
      RiskManager_init_def default_config_def d_0_02_def fl_eval)

text \<open>
  Claim C8.  With an account balance that is not above zero (zero, negative, or not a
  number) the position size is infinite and the order is rejected, whatever it is; and no
  call of \<open>evaluate_order\<close>, on any balance, ends in a division by zero.
\<close>

theorem evaluate_order_nonpositive_balance:
  "(\<not> fgt account_balance fzero \<longrightarrow>
      fst (evaluate_order rm ord account_balance) =
        Inr \<lparr>approved = False,
             reason = Some (''Position size inf% exceeds maximum ''
                        @ fmt_pct (flo (max_position_size rm)))\<rparr>)
   \<and> fst (evaluate_order rm ord account_balance) \<noteq> Inl ZeroDivisionError"
  using nonpositive_balance_reject [of account_balance rm ord]
    no_zero_division [of rm ord account_balance]
  by (simp add: reject_def)

theorem evaluate_order_nonpositive_balance_witness:
  "\<not> fgt fzero fzero
   \<and> \<not> fgt (Fl True 250) fzero
   \<and> fst (evaluate_order tight_manager btc_buy fzero) =
        Inr \<lparr>approved = False, reason = Some ''Position size inf% exceeds maximum 10.00%''\<rparr>
   \<and> fst (evaluate_order tight_manager btc_buy (Fl True 250)) =
        Inr \<lparr>approved = False, reason = Some ''Position size inf% exceeds maximum 10.00%''\<rparr>"
  using evaluate_order_nonpositive_balance [of fzero tight_manager btc_buy]
    evaluate_order_nonpositive_balance [of "Fl True 250" tight_manager btc_buy]
  by (simp add: tight_manager_limit fmt_pct_tenth fzero_def signed_def)

text \<open>
  Claim C10.  \<open>evaluate_order\<close> hands the risk manager back as it received it: limits,
  open positions, daily P&L, trades and reset time, whether it approves, rejects or raises.
\<close>

theorem evaluate_order_leaves_state:
  "snd (evaluate_order rm ord account_balance) = rm"
  by (rule evaluate_order_frame)

theorem evaluate_order_leaves_state_witness:
  "snd (evaluate_order tight_manager btc_buy (Fl False 10000)) = tight_manager
   \<and> approved (projr (fst (evaluate_order tight_manager btc_buy (Fl False 10000)))) = False"
  using evaluate_order_leaves_state [of tight_manager btc_buy "Fl False 10000"]
  by (simp add: scenario_a)

subsection \<open>Daily P\&L\<close>

lemma keys_open:
  "fst ` set (open_positions (record_position_open rm p))
     = insert (pos_symbol p) (fst ` set (open_positions rm))"
  by (simp add: record_position_open_def dom_update)

lemma keys_delete: "fst ` set (AList.delete k al) = fst ` set al - {k}"
proof -
  have "set (map fst (AList.delete k al)) = set (map fst al) - {k}"
    by (simp only: delete_keys set_removeAll)
  then show ?thesis by simp
qed

lemma record_all_matched:
  "set opened = fst ` set (open_positions rm) \<Longrightarrow>
   daily_pnl (record_all rm cs) = foldl fadd (daily_pnl rm) (matched_pnls opened cs)"
proof (induction cs arbitrary: rm opened)
  case Nil
  show ?case by simp
next
  case (Cons c cs)
  show ?case
  proof (cases c)
    case (Open p)
    have "set (pos_symbol p # opened)
            = fst ` set (open_positions (record_position_open rm p))"
      using Cons.prems by (simp add: keys_open)
    from Cons.IH [OF this] Open show ?thesis by (simp add: record_position_open_def)
  next
    case (Close smb pnl)
    show ?thesis
    proof (cases "smb \<in> set opened")
      case True
      let ?rm = "rm\<lparr>open_positions := AList.delete smb (open_positions rm),
                     daily_pnl := fadd (daily_pnl rm) pnl\<rparr>"
      have r: "record_position_close rm smb pnl = ?rm"
        using True Cons.prems by (simp add: record_position_close_def)
      have "set (removeAll smb opened) = fst ` set (open_positions ?rm)"
        using Cons.prems by (simp add: keys_delete)
      from Cons.IH [OF this] Close True r show ?thesis by simp
    next
      case False
      then have r: "record_position_close rm smb pnl = rm"
        using Cons.prems by (simp add: record_position_close_def)
      from Cons.IH [OF Cons.prems] Close False r show ?thesis by simp
    qed
  qed
qed

lemma all_matched_pnls: "all_matched opened cs \<Longrightarrow> matched_pnls opened cs = close_pnls cs"
  by (induction opened cs rule: all_matched.induct) simp_all

text \<open>
  Claim C6, as the code has it.  From a fresh risk manager, after any sequence of
  \<open>record_position_open\<close> and \<open>record_position_close\<close> calls the daily P&L is the float sum,
  accumulated from 0.0 in call order, of the arguments of those close calls whose symbol had
  an open position when they were made; a close call for a symbol with no open position adds
  nothing.  When every close call finds its position open, that is the float sum over all
  close calls.
\<close>

theorem daily_pnl_sums_matched_closes:
  "daily_pnl (record_all (RiskManager_init config now) cs) = float_sum (matched_pnls [] cs)
   \<and> (all_matched [] cs \<longrightarrow>
        daily_pnl (record_all (RiskManager_init config now) cs) = float_sum (close_pnls cs))"
proof -
  have "set [] = fst ` set (open_positions (RiskManager_init config now))"
    by (simp add: RiskManager_init_def)
  from record_all_matched [OF this, of cs]
  have "daily_pnl (record_all (RiskManager_init config now) cs) = float_sum (matched_pnls [] cs)"
    by (simp add: RiskManager_init_def float_sum_def)
  then show ?thesis using all_matched_pnls [of "[]" cs] by simp
qed

lemma paired_sum: "float_sum (close_pnls paired_calls) = Fl False 4"
  by (simp add: paired_calls_def float_sum_def fzero_def signed_def fl_eval)

theorem daily_pnl_sums_matched_closes_witness:
  "all_matched [] paired_calls
   \<and> close_pnls paired_calls = [Fl False 7, Fl True 3]
   \<and> daily_pnl (record_all (RiskManager_init default_config 0) paired_calls) = Fl False 4"
proof -
  have a: "all_matched [] paired_calls"
    unfolding paired_calls_def btc_position_def eth_position_def by simp
  have c: "close_pnls paired_calls = [Fl False 7, Fl True 3]"
    unfolding paired_calls_def by simp
  from daily_pnl_sums_matched_closes [of default_config 0 paired_calls] a
  have "daily_pnl (record_all (RiskManager_init default_config 0) paired_calls)
          = float_sum (close_pnls paired_calls)"
    by blast
  then have "daily_pnl (record_all (RiskManager_init default_config 0) paired_calls)
          = Fl False 4"
    by (simp only: paired_sum)
  with a c show ?thesis by blast
qed

text \<open>
  C6 as stated fails twice over.  Closing a symbol that was never opened leaves the daily
  P&L at 0, not at the argument 5.  And with every close matched, closes of
  10000000000000000 and 1 leave the daily P&L at 10000000000000000, one short of the sum of
  the arguments: the float addition absorbs the 1.
\<close>

lemma absorbing_sum: "float_sum (close_pnls absorbing_calls) = Fl False 10000000000000000"
  by (simp add: absorbing_calls_def float_sum_def fzero_def signed_def fl_eval)

lemma absorbing_matched: "all_matched [] absorbing_calls"
  unfolding absorbing_calls_def btc_position_def eth_position_def by simp

theorem daily_pnl_sum_counterexample:
  "daily_pnl (record_all (RiskManager_init default_config 0)
       [Close (Some ''BTC/USDT'') (Fl False 5)]) = Fl False 0
   \<and> exact_sum (close_pnls [Close (Some ''BTC/USDT'') (Fl False 5)]) = 5
   \<and> all_matched [] absorbing_calls
   \<and> daily_pnl (record_all (RiskManager_init default_config 0) absorbing_calls)
       = Fl False 10000000000000000
   \<and> exact_sum (close_pnls absorbing_calls) = 10000000000000001"
proof -
  have "daily_pnl (record_all (RiskManager_init default_config 0) absorbing_calls)
       = Fl False 10000000000000000"
    using record_all_matched [of "[]" "RiskManager_init default_config 0" absorbing_calls]
      all_matched_pnls [OF absorbing_matched] absorbing_sum
    by (simp add: RiskManager_init_def float_sum_def)
  moreover have "exact_sum (close_pnls absorbing_calls) = 10000000000000001"
    by (simp add: absorbing_calls_def signed_def)
  moreover have "daily_pnl (record_all (RiskManager_init default_config 0)
       [Close (Some ''BTC/USDT'') (Fl False 5)]) = Fl False 0"
    by (simp add: record_position_close_def RiskManager_init_def fzero_def)
  ultimately show ?thesis using absorbing_matched by (simp add: signed_def)
qed
section \<open>Properties of the order manager\<close>

subsection \<open>Order processing\<close>








subsection \<open>Cancellation\<close>

text \<open>For the venue statuses filled, canceled and expired the adapter's cancel is not called.\<close>

lemma cancel_order_refuses:
  assumes "running om" "status_result ad = Returns (Some r)"
    and "entry_get (vr_status r) \<in> {Some ''filled'', Some ''canceled'', Some ''expired''}"
  shows "cancel_order om ad oid now = (False, invoke om (GetOrderStatus oid))"
  using assms by (auto simp add: cancel_order_def get_order_status_def Let_def)

text \<open>
  Claim C7 does not hold of the code.  For an order that the venue reports as rejected, and
  for one it reports as closed (the status \<open>process_order\<close> takes for a fill), \<open>cancel_order\<close>
  goes on to call the adapter's \<open>cancel_order\<close>, and when that answers true it publishes
  \<open>order.canceled\<close> and returns True.
\<close>

theorem cancel_order_terminal_status:
  "cancel_order started_manager rejected_adapter ''o1'' 9 =
     (True,
      started_manager\<lparr>published := [OrderCanceled ''o1'' 9],
        adapter_calls := [GetOrderStatus ''o1'', CancelOrder ''o1'' (Some ''BTC/USDT'')]\<rparr>)
   \<and> cancel_order started_manager closed_adapter ''o1'' 9 =
     (True,
      started_manager\<lparr>published := [OrderCanceled ''o1'' 9],
        adapter_calls := [GetOrderStatus ''o1'', CancelOrder ''o1'' (Some ''BTC/USDT'')]\<rparr>)"
  by (simp add: cancel_order_def get_order_status_def Let_def rejected_adapter_def
      closed_adapter_def venue_status_def started_manager_def invoke_def publish_def
      entry_get_def)

end
